theory Spec2Isabelle
  imports Main
begin

section \<open>Python values, exceptions and classes\<close>

text \<open>
  The development embeds the two source files of the repository:
  \<^verbatim>\<open>abstract_factory/abstract_factory.py\<close> (the registry based \<^verbatim>\<open>AbstractFactory\<close>
  with plugin loading) and \<^verbatim>\<open>abstract_factory.py\<close> (the hard-wired
  \<^verbatim>\<open>QueryRunnerFactory\<close>).

  A configuration is a JSON-like dictionary with string keys. It is passed by reference in
  Python, so every \<^verbatim>\<open>get_number\<close> below returns the configuration as it is after the
  call, next to its result.
\<close>

datatype py_value =
    PyNone
  | PyBool bool
  | PyInt int
  | PyStr string
  | PyList "py_value list"
  | PyDict "(string \<times> py_value) list"

type_synonym configuration = "(string \<times> py_value) list"

text \<open>
  An exception has a class and the text that \<^verbatim>\<open>str(e)\<close> gives; \<open>Unprintable\<close> is an
  exception whose \<^verbatim>\<open>__str__\<close> raises the given exception instead of giving a text. The
  handler of the plugin loader is \<^verbatim>\<open>except Exception\<close>: it catches the subclasses of
  \<^verbatim>\<open>Exception\<close>, and not \<^verbatim>\<open>SystemExit\<close> or \<^verbatim>\<open>KeyboardInterrupt\<close>, which derive from
  \<^verbatim>\<open>BaseException\<close> only.
\<close>

datatype exc_class =
    ValueError
  | TypeError
  | ImportError
  | AttributeError
  | RuntimeError
  | UnicodeEncodeError
  | SystemExit
  | KeyboardInterrupt

datatype py_exception =
    Raise exc_class string
  | Unprintable exc_class py_exception

fun exc_class_of :: "py_exception \<Rightarrow> exc_class" where
  "exc_class_of (Raise k msg) = k"
| "exc_class_of (Unprintable k e) = k"

fun exc_str :: "py_exception \<Rightarrow> py_exception + string" where
  "exc_str (Raise k msg) = Inr msg"
| "exc_str (Unprintable k e) = Inl e"

fun subclass_of_Exception :: "exc_class \<Rightarrow> bool" where
  "subclass_of_Exception SystemExit = False"
| "subclass_of_Exception KeyboardInterrupt = False"
| "subclass_of_Exception k = True"

definition isinstance_Exception :: "py_exception \<Rightarrow> bool" where
  "isinstance_Exception e = subclass_of_Exception (exc_class_of e)"

text \<open>
  What calling a class with no argument gives: Python's default object creation allocates
  a new object; an abstract class, or an \<^verbatim>\<open>__init__\<close> that raises or needs arguments,
  fails; a class that overrides \<^verbatim>\<open>__new__\<close> (a singleton) hands out an object that exists
  already.
\<close>

datatype construction =
    Allocates
  | Fails py_exception
  | Existing nat

text \<open>
  A \<^verbatim>\<open>get_number\<close> method of a foreign class: its result depends on the configuration
  only, or also on the instance it is called on (given by the identity of the instance).
\<close>

datatype py_method =
    Method "configuration \<Rightarrow> (py_exception + py_value) \<times> configuration"
  | Instance_method "nat \<Rightarrow> configuration \<Rightarrow> (py_exception + py_value) \<times> configuration"

text \<open>
  The classes of \<^verbatim>\<open>abstract_factory/abstract_factory.py\<close>, and the classes that a plugin
  package or a caller of \<^verbatim>\<open>register_runner\<close> brings. A foreign class is described by
  its name, by whether \<^verbatim>\<open>issubclass(cls, QueryRunner)\<close> holds for it, by what calling it
  gives, by the names under which its \<^verbatim>\<open>__init__\<close> registers the class with
  \<^verbatim>\<open>AbstractFactory.register_runner\<close> (the side effect of a constructor on the registry),
  and by its \<^verbatim>\<open>get_number\<close> method when its instances have one.
\<close>

datatype py_class =
    QueryRunner
  | MongoDBRunner
  | MySQLRunner
  | BigQueryRunner
  | PluginClass string bool construction "string list" "py_method option"

text \<open>
  An object that can be given as \<^verbatim>\<open>runner_class\<close> or come out of \<^verbatim>\<open>entry_point.load()\<close>:
  a class, or a plain value that is not a class and cannot be called.
\<close>

datatype py_object = Class py_class | Value py_value

record py_instance =
  inst_id :: nat
  inst_class :: py_class

text \<open>
  \<^verbatim>\<open>issubclass(cls, QueryRunner)\<close> for a class: a class is a subclass of itself, and the
  three runners of the source inherit from \<^verbatim>\<open>QueryRunner\<close>.
\<close>

fun inherits_QueryRunner :: "py_class \<Rightarrow> bool" where
  "inherits_QueryRunner QueryRunner = True"
| "inherits_QueryRunner MongoDBRunner = True"
| "inherits_QueryRunner MySQLRunner = True"
| "inherits_QueryRunner BigQueryRunner = True"
| "inherits_QueryRunner (PluginClass nm sub new regs meth) = sub"

text \<open>\<^verbatim>\<open>issubclass\<close> raises \<^verbatim>\<open>TypeError\<close> when its first argument is not a class.\<close>

fun issubclass_QueryRunner :: "py_object \<Rightarrow> py_exception + bool" where
  "issubclass_QueryRunner (Class c) = Inr (inherits_QueryRunner c)"
| "issubclass_QueryRunner (Value v) = Inl (Raise TypeError ''issubclass() arg 1 must be a class'')"

text \<open>
  \<^verbatim>\<open>QueryRunner\<close> declares \<^verbatim>\<open>get_number\<close> with \<^verbatim>\<open>@abstractmethod\<close> and does not implement
  it, so \<^verbatim>\<open>QueryRunner()\<close> raises \<^verbatim>\<open>TypeError\<close> (the text is that of CPython 3.11). The
  three runners define no \<^verbatim>\<open>__init__\<close> and no \<^verbatim>\<open>__new__\<close>.
\<close>

definition abstract_class_error :: py_exception where
  "abstract_class_error =
     Raise TypeError
       (''Can'' @ [CHR 0x27] @
        ''t instantiate abstract class QueryRunner with abstract method get_number'')"

fun construction_of :: "py_class \<Rightarrow> construction" where
  "construction_of QueryRunner = Fails abstract_class_error"
| "construction_of MongoDBRunner = Allocates"
| "construction_of MySQLRunner = Allocates"
| "construction_of BigQueryRunner = Allocates"
| "construction_of (PluginClass nm sub new regs meth) = new"

fun registers_of :: "py_class \<Rightarrow> string list" where
  "registers_of (PluginClass nm sub new regs meth) = regs"
| "registers_of c = []"

section \<open>The program state\<close>

text \<open>
  \<^verbatim>\<open>_runners\<close> is an attribute of the class \<^verbatim>\<open>AbstractFactory\<close>: one dictionary for the
  process. No method assigns \<^verbatim>\<open>self._runners\<close>, so the attribute lookup on any instance
  finds the dictionary of the class, and \<^verbatim>\<open>self._runners[k] = v\<close> updates that dictionary
  (the section on attribute lookup below makes the lookup explicit and proves this).
  The state also holds what \<^verbatim>\<open>print\<close> has written and the number of objects allocated so
  far, which is the identity of the next new object.
\<close>

record state =
  runners :: "string \<rightharpoonup> py_object"
  stdout :: "string list"
  next_id :: nat

record factory =
  fac_id :: nat

definition AbstractFactory_runners :: "string \<rightharpoonup> py_object" where
  "AbstractFactory_runners =
     [''mongodb'' \<mapsto> Class MongoDBRunner,
      ''mysql'' \<mapsto> Class MySQLRunner,
      ''bigquery'' \<mapsto> Class BigQueryRunner]"

definition initial_state :: state where
  "initial_state = \<lparr>runners = AbstractFactory_runners, stdout = [], next_id = 0\<rparr>"

section \<open>The runners\<close>

text \<open>
  \<^verbatim>\<open>get_number\<close>, dispatched on the class of the instance. The body of the abstract
  method is \<^verbatim>\<open>pass\<close>, which returns \<^verbatim>\<open>None\<close>. An instance without the attribute raises
  \<^verbatim>\<open>AttributeError\<close>.
\<close>

fun get_number_of_class ::
  "py_class \<Rightarrow> nat \<Rightarrow> configuration \<Rightarrow> (py_exception + py_value) \<times> configuration" where
  "get_number_of_class QueryRunner i configuration = (Inr PyNone, configuration)"
| "get_number_of_class MongoDBRunner i configuration = (Inr (PyInt 1), configuration)"
| "get_number_of_class MySQLRunner i configuration = (Inr (PyInt 2), configuration)"
| "get_number_of_class BigQueryRunner i configuration = (Inr (PyInt 3), configuration)"
| "get_number_of_class (PluginClass nm sub new regs (Some (Method meth))) i configuration =
     meth configuration"
| "get_number_of_class (PluginClass nm sub new regs (Some (Instance_method meth))) i configuration =
     meth i configuration"
| "get_number_of_class (PluginClass nm sub new regs None) i configuration =
     (Inl (Raise AttributeError ''object has no attribute get_number''), configuration)"

definition get_number ::
  "py_instance \<Rightarrow> configuration \<Rightarrow> (py_exception + py_value) \<times> configuration" where
  "get_number self configuration =
     get_number_of_class (inst_class self) (inst_id self) configuration"

fun has_get_number :: "py_class \<Rightarrow> bool" where
  "has_get_number (PluginClass nm sub new regs None) = False"
| "has_get_number c = True"

section \<open>AbstractFactory\<close>

definition register_runner ::
  "string \<Rightarrow> py_object \<Rightarrow> state \<Rightarrow> (py_exception + unit) \<times> state" where
  "register_runner name runner_class st =
     (case issubclass_QueryRunner runner_class of
        Inl e \<Rightarrow> (Inl e, st)
      | Inr b \<Rightarrow>
          if \<not> b then (Inl (Raise TypeError ''Runner class must inherit from QueryRunner''), st)
          else (Inr (), st\<lparr>runners := (runners st)(name \<mapsto> runner_class)\<rparr>))"

text \<open>
  \<^verbatim>\<open>runner_class()\<close>: calling a class builds an instance, calling a plain value raises.
  A constructor that registers its class runs \<^verbatim>\<open>register_runner\<close> once per name; an
  exception of a registration leaves the constructor.
\<close>

fun init_registers :: "py_class \<Rightarrow> string list \<Rightarrow> state \<Rightarrow> (py_exception + unit) \<times> state" where
  "init_registers c [] st = (Inr (), st)"
| "init_registers c (name # rest) st =
     (case register_runner name (Class c) st of
        (Inl e, st') \<Rightarrow> (Inl e, st')
      | (Inr u, st') \<Rightarrow> init_registers c rest st')"

definition instantiate :: "py_class \<Rightarrow> state \<Rightarrow> (py_exception + py_instance) \<times> state" where
  "instantiate c st =
     (case construction_of c of
        Fails e \<Rightarrow> (Inl e, st)
      | Allocates \<Rightarrow>
          (case init_registers c (registers_of c) (st\<lparr>next_id := Suc (next_id st)\<rparr>) of
             (Inl e, st') \<Rightarrow> (Inl e, st')
           | (Inr u, st') \<Rightarrow> (Inr \<lparr>inst_id = next_id st, inst_class = c\<rparr>, st'))
      | Existing k \<Rightarrow>
          (case init_registers c (registers_of c) st of
             (Inl e, st') \<Rightarrow> (Inl e, st')
           | (Inr u, st') \<Rightarrow> (Inr \<lparr>inst_id = k, inst_class = c\<rparr>, st')))"

fun call :: "py_object \<Rightarrow> state \<Rightarrow> (py_exception + py_instance) \<times> state" where
  "call (Class c) st = instantiate c st"
| "call (Value v) st = (Inl (Raise TypeError ''object is not callable''), st)"

text \<open>\<^verbatim>\<open>dict.get(key)\<close> gives \<^verbatim>\<open>None\<close> for a missing key.\<close>

definition dict_get :: "(string \<rightharpoonup> py_object) \<Rightarrow> string \<Rightarrow> py_object" where
  "dict_get d k = (case d k of None \<Rightarrow> Value PyNone | Some v \<Rightarrow> v)"

fun is_None :: "py_object \<Rightarrow> bool" where
  "is_None (Value PyNone) = True"
| "is_None obj = False"

definition get_dao ::
  "factory \<Rightarrow> string \<Rightarrow> state \<Rightarrow> (py_exception + py_instance) \<times> state" where
  "get_dao self runner_name st =
     (let runner_class = dict_get (runners st) runner_name in
      if is_None runner_class
      then (Inl (Raise ValueError (''Unknown query runner: '' @ runner_name)), st)
      else call runner_class st)"

text \<open>
  An entry point of the group \<^verbatim>\<open>query_runners\<close>: its name and what \<^verbatim>\<open>load()\<close> does, an
  exception or the object the entry refers to.
\<close>

record entry_point =
  ep_name :: string
  ep_load :: "py_exception + py_object"

text \<open>
  What the plugin loader meets outside the program: \<^verbatim>\<open>iter_entry_points\<close> is a lazy
  generator over the metadata of the installed packages, which yields entry points and may
  raise while it is iterated (a malformed \<^verbatim>\<open>entry_points.txt\<close>); and \<^verbatim>\<open>sys.stdout\<close>, whose
  \<^verbatim>\<open>write\<close> may raise for a line (an encoding that cannot represent it, a closed stream).
\<close>

record environment =
  entry_points :: "entry_point list"
  iteration_error :: "py_exception option"
  stdout_error :: "string \<Rightarrow> py_exception option"

text \<open>The body of the \<^verbatim>\<open>try\<close>: an entry that is a class but no subclass is skipped silently.\<close>

definition load_runner :: "entry_point \<Rightarrow> state \<Rightarrow> (py_exception + unit) \<times> state" where
  "load_runner entry st =
     (case ep_load entry of
        Inl e \<Rightarrow> (Inl e, st)
      | Inr runner_class \<Rightarrow>
          (case issubclass_QueryRunner runner_class of
             Inl e \<Rightarrow> (Inl e, st)
           | Inr b \<Rightarrow>
               if b then (Inr (), st\<lparr>runners := (runners st)(ep_name entry \<mapsto> runner_class)\<rparr>)
               else (Inr (), st)))"

text \<open>
  The handler: the f-string calls \<^verbatim>\<open>str(e)\<close>, then \<^verbatim>\<open>print\<close> writes the line. Either can
  raise, and the handler does not catch that.
\<close>

definition error_line :: "entry_point \<Rightarrow> py_exception \<Rightarrow> py_exception + string" where
  "error_line entry e =
     (case exc_str e of
        Inl e' \<Rightarrow> Inl e'
      | Inr msg \<Rightarrow> Inr (''Error loading runner '' @ ep_name entry @ '': '' @ msg))"

definition print_error ::
  "environment \<Rightarrow> entry_point \<Rightarrow> py_exception \<Rightarrow> state \<Rightarrow> (py_exception + unit) \<times> state" where
  "print_error env entry e st =
     (case error_line entry e of
        Inl e' \<Rightarrow> (Inl e', st)
      | Inr line \<Rightarrow>
          (case stdout_error env line of
             Some e' \<Rightarrow> (Inl e', st)
           | None \<Rightarrow> (Inr (), st\<lparr>stdout := stdout st @ [line]\<rparr>)))"

text \<open>
  The \<^verbatim>\<open>for\<close> loop over the entries that the generator still has to yield. The generator
  is advanced outside the \<^verbatim>\<open>try\<close>, so its exception leaves the method.
\<close>

fun for_entry_points ::
  "factory \<Rightarrow> environment \<Rightarrow> entry_point list \<Rightarrow> state \<Rightarrow> (py_exception + unit) \<times> state" where
  "for_entry_points self env [] st =
     (case iteration_error env of None \<Rightarrow> (Inr (), st) | Some e \<Rightarrow> (Inl e, st))"
| "for_entry_points self env (entry # rest) st =
     (case load_runner entry st of
        (Inr u, st') \<Rightarrow> for_entry_points self env rest st'
      | (Inl e, st') \<Rightarrow>
          if isinstance_Exception e
          then (case print_error env entry e st' of
                  (Inl e', st'') \<Rightarrow> (Inl e', st'')
                | (Inr u, st'') \<Rightarrow> for_entry_points self env rest st'')
          else (Inl e, st'))"

definition load_external_runners ::
  "factory \<Rightarrow> environment \<Rightarrow> state \<Rightarrow> (py_exception + unit) \<times> state" where
  "load_external_runners self env st = for_entry_points self env (entry_points env) st"

text \<open>\<^verbatim>\<open>AbstractFactory()\<close>: a new object, then \<^verbatim>\<open>__init__\<close>, which loads the plugins.\<close>

definition AbstractFactory_init ::
  "environment \<Rightarrow> state \<Rightarrow> (py_exception + factory) \<times> state" where
  "AbstractFactory_init env st =
     (let self = \<lparr>fac_id = next_id st\<rparr>;
          st1 = st\<lparr>next_id := Suc (next_id st)\<rparr>
      in case load_external_runners self env st1 of
           (Inl e, st2) \<Rightarrow> (Inl e, st2)
         | (Inr u, st2) \<Rightarrow> (Inr self, st2))"

section \<open>QueryRunnerFactory\<close>

text \<open>The factory of \<^verbatim>\<open>abstract_factory.py\<close>, an \<^verbatim>\<open>if\<close> chain over three names.\<close>

datatype query_runner = MongoDBQueryRunner | MySQLQueryRunner | BigQueryQueryRunner

fun query_runner_get_number :: "query_runner \<Rightarrow> configuration \<Rightarrow> py_value \<times> configuration" where
  "query_runner_get_number MongoDBQueryRunner configuration = (PyInt 1, configuration)"
| "query_runner_get_number MySQLQueryRunner configuration = (PyInt 2, configuration)"
| "query_runner_get_number BigQueryQueryRunner configuration = (PyInt 3, configuration)"

definition get_query_runner :: "string \<Rightarrow> py_exception + query_runner" where
  "get_query_runner name =
     (if name = ''mongodb'' then Inr MongoDBQueryRunner
      else if name = ''mysql'' then Inr MySQLQueryRunner
      else if name = ''bigquery'' then Inr BigQueryQueryRunner
      else Inl (Raise ValueError (''Invalid query runner name: '' @ name @ ''.'')))"

section \<open>Attribute lookup on factory objects\<close>

text \<open>
  The methods reach the registry through \<^verbatim>\<open>self._runners\<close> and \<^verbatim>\<open>cls._runners\<close>. Python
  looks an attribute up in the object first and in its class next, so an object that had a
  \<^verbatim>\<open>_runners\<close> attribute of its own would use its own dictionary. This section embeds the
  methods once more with that lookup written out, on a store that holds, next to the state
  above (whose \<open>runners\<close> is the dictionary of the class), the dictionary of every object
  that has an attribute of its own.
\<close>

record objects =
  shared :: state
  own_runners :: "nat \<rightharpoonup> (string \<rightharpoonup> py_object)"

definition initial_objects :: objects where
  "initial_objects = \<lparr>shared = initial_state, own_runners = Map.empty\<rparr>"

text \<open>The value of \<^verbatim>\<open>self._runners\<close>, and the assignment \<^verbatim>\<open>self._runners[name] = value\<close>.\<close>

definition self_runners :: "factory \<Rightarrow> objects \<Rightarrow> (string \<rightharpoonup> py_object)" where
  "self_runners self os =
     (case own_runners os (fac_id self) of
        Some d \<Rightarrow> d
      | None \<Rightarrow> runners (shared os))"

definition set_self_runner :: "factory \<Rightarrow> string \<Rightarrow> py_object \<Rightarrow> objects \<Rightarrow> objects" where
  "set_self_runner self name v os =
     (case own_runners os (fac_id self) of
        Some d \<Rightarrow> os\<lparr>own_runners := (own_runners os)(fac_id self \<mapsto> d(name \<mapsto> v))\<rparr>
      | None \<Rightarrow> os\<lparr>shared := (shared os)\<lparr>runners := (runners (shared os))(name \<mapsto> v)\<rparr>\<rparr>)"

text \<open>A step that works on the state of the class and on no object's own attribute.\<close>

definition on_shared :: "(state \<Rightarrow> 'a \<times> state) \<Rightarrow> objects \<Rightarrow> 'a \<times> objects" where
  "on_shared step os = (case step (shared os) of (r, st') \<Rightarrow> (r, os\<lparr>shared := st'\<rparr>))"

definition get_dao_of ::
  "factory \<Rightarrow> string \<Rightarrow> objects \<Rightarrow> (py_exception + py_instance) \<times> objects" where
  "get_dao_of self runner_name os =
     (let runner_class = dict_get (self_runners self os) runner_name in
      if is_None runner_class
      then (Inl (Raise ValueError (''Unknown query runner: '' @ runner_name)), os)
      else on_shared (call runner_class) os)"

text \<open>\<^verbatim>\<open>register_runner\<close> is a class method: \<^verbatim>\<open>cls._runners\<close> is the dictionary of the class.\<close>

definition register_runner_of ::
  "string \<Rightarrow> py_object \<Rightarrow> objects \<Rightarrow> (py_exception + unit) \<times> objects" where
  "register_runner_of name runner_class os = on_shared (register_runner name runner_class) os"

definition load_runner_of ::
  "factory \<Rightarrow> entry_point \<Rightarrow> objects \<Rightarrow> (py_exception + unit) \<times> objects" where
  "load_runner_of self entry os =
     (case ep_load entry of
        Inl e \<Rightarrow> (Inl e, os)
      | Inr runner_class \<Rightarrow>
          (case issubclass_QueryRunner runner_class of
             Inl e \<Rightarrow> (Inl e, os)
           | Inr b \<Rightarrow>
               if b then (Inr (), set_self_runner self (ep_name entry) runner_class os)
               else (Inr (), os)))"

fun for_entry_points_of ::
  "factory \<Rightarrow> environment \<Rightarrow> entry_point list \<Rightarrow> objects \<Rightarrow> (py_exception + unit) \<times> objects" where
  "for_entry_points_of self env [] os =
     (case iteration_error env of None \<Rightarrow> (Inr (), os) | Some e \<Rightarrow> (Inl e, os))"
| "for_entry_points_of self env (entry # rest) os =
     (case load_runner_of self entry os of
        (Inr u, os') \<Rightarrow> for_entry_points_of self env rest os'
      | (Inl e, os') \<Rightarrow>
          if isinstance_Exception e
          then (case on_shared (print_error env entry e) os' of
                  (Inl e', os'') \<Rightarrow> (Inl e', os'')
                | (Inr u, os'') \<Rightarrow> for_entry_points_of self env rest os'')
          else (Inl e, os'))"

definition load_external_runners_of ::
  "factory \<Rightarrow> environment \<Rightarrow> objects \<Rightarrow> (py_exception + unit) \<times> objects" where
  "load_external_runners_of self env os = for_entry_points_of self env (entry_points env) os"

text \<open>\<^verbatim>\<open>__init__\<close> binds no attribute of the new object.\<close>

definition AbstractFactory_init_of ::
  "environment \<Rightarrow> objects \<Rightarrow> (py_exception + factory) \<times> objects" where
  "AbstractFactory_init_of env os =
     (let self = \<lparr>fac_id = next_id (shared os)\<rparr>;
          os1 = os\<lparr>shared := (shared os)\<lparr>next_id := Suc (next_id (shared os))\<rparr>\<rparr>
      in case load_external_runners_of self env os1 of
           (Inl e, os2) \<Rightarrow> (Inl e, os2)
         | (Inr u, os2) \<Rightarrow> (Inr self, os2))"

section \<open>Notions used by the properties\<close>

text \<open>
  The Runner contract for an object handed to the registry, as the docstring of
  \<^verbatim>\<open>QueryRunner\<close> words it ("all concrete database implementations must inherit from this
  class and implement the get_number method") and as the registry uses a constructor: it
  is a class, it inherits from \<^verbatim>\<open>QueryRunner\<close>, calling it with no argument gives an
  instance, and the instance has \<^verbatim>\<open>get_number\<close>.
\<close>

fun constructible :: "py_class \<Rightarrow> bool" where
  "constructible c =
     (case construction_of c of Allocates \<Rightarrow> True | Fails e \<Rightarrow> False | Existing k \<Rightarrow> True)"

fun satisfies_Runner_contract :: "py_object \<Rightarrow> bool" where
  "satisfies_Runner_contract (Class c) =
     (inherits_QueryRunner c \<and> constructible c \<and> has_get_number c)"
| "satisfies_Runner_contract (Value v) = False"

text \<open>
  A class is plain when it is created by the default object creation, its constructor
  registers nothing, and its \<^verbatim>\<open>get_number\<close> does not depend on the instance. The three
  runners of the source are plain.
\<close>

fun instance_independent :: "py_class \<Rightarrow> bool" where
  "instance_independent (PluginClass nm sub new regs (Some (Instance_method meth))) = False"
| "instance_independent c = True"

definition plain_class :: "py_class \<Rightarrow> bool" where
  "plain_class c =
     (construction_of c = Allocates \<and> registers_of c = [] \<and> instance_independent c)"

text \<open>
  What the plugin loader does with one entry: \<open>loaded_class\<close> is the class it registers,
  if any, and \<open>try_failure\<close> the exception that leaves the \<^verbatim>\<open>try\<close> body, if any. A failure
  is \<open>contained\<close> when the handler deals with it: the exception is an \<^verbatim>\<open>Exception\<close>, its
  \<^verbatim>\<open>str\<close> gives a text, and \<^verbatim>\<open>sys.stdout\<close> takes the line. \<open>last_loaded\<close> is the class
  of the last entry of a name that is registered.
\<close>

definition loaded_class :: "entry_point \<Rightarrow> py_object option" where
  "loaded_class entry =
     (case ep_load entry of
        Inl e \<Rightarrow> None
      | Inr obj \<Rightarrow> if issubclass_QueryRunner obj = Inr True then Some obj else None)"

definition try_failure :: "entry_point \<Rightarrow> py_exception option" where
  "try_failure entry =
     (case ep_load entry of
        Inl e \<Rightarrow> Some e
      | Inr obj \<Rightarrow> (case issubclass_QueryRunner obj of Inl e \<Rightarrow> Some e | Inr b \<Rightarrow> None))"


fun last_loaded :: "entry_point list \<Rightarrow> string \<Rightarrow> py_object option" where
  "last_loaded [] n = None"
| "last_loaded (entry # rest) n =
     (case last_loaded rest n of
        Some obj \<Rightarrow> Some obj
      | None \<Rightarrow> if ep_name entry = n then loaded_class entry else None)"

text \<open>Sequences of calls on the factory, each applied to the state the one before left.\<close>

datatype operation =
    New_factory environment
  | Register_runner string py_object
  | Get_dao factory string

fun apply_operation :: "operation \<Rightarrow> state \<Rightarrow> state" where
  "apply_operation (New_factory env) st = snd (AbstractFactory_init env st)"
| "apply_operation (Register_runner name runner_class) st =
     snd (register_runner name runner_class st)"
| "apply_operation (Get_dao self runner_name) st = snd (get_dao self runner_name st)"

fun run :: "operation list \<Rightarrow> state \<Rightarrow> state" where
  "run [] st = st"
| "run (op # ops) st = run ops (apply_operation op st)"

fun apply_operation_of :: "operation \<Rightarrow> objects \<Rightarrow> objects" where
  "apply_operation_of (New_factory env) os = snd (AbstractFactory_init_of env os)"
| "apply_operation_of (Register_runner name runner_class) os =
     snd (register_runner_of name runner_class os)"
| "apply_operation_of (Get_dao self runner_name) os = snd (get_dao_of self runner_name os)"

fun run_of :: "operation list \<Rightarrow> objects \<Rightarrow> objects" where
  "run_of [] os = os"
| "run_of (op # ops) os = run_of ops (apply_operation_of op os)"


subsection \<open>Example data\<close>

text \<open>The configuration of the usage example in the module docstring.\<close>

definition example_configuration :: configuration where
  "example_configuration =
     [(''sql_statement'', PyStr ''select count(*) as the_number from `orders`''),
      (''return_value'', PyStr ''the_number'')]"

text \<open>
  Runners shipped by plugins: two plain ones; a class that does not inherit from
  \<^verbatim>\<open>QueryRunner\<close>; a singleton, whose \<^verbatim>\<open>__new__\<close> hands out the one instance that its
  module has created; a class whose \<^verbatim>\<open>__init__\<close> registers the class under another name;
  a class whose instances number themselves.
\<close>

definition CouchDBRunner :: py_class where
  "CouchDBRunner =
     PluginClass ''CouchDBRunner'' True Allocates [] (Some (Method (\<lambda>c. (Inr (PyInt 4), c))))"

definition HttpJsonRunner :: py_class where
  "HttpJsonRunner =
     PluginClass ''HttpJsonRunner'' True Allocates [] (Some (Method (\<lambda>c. (Inr (PyInt 5), c))))"

definition NotARunner :: py_class where
  "NotARunner = PluginClass ''NotARunner'' False Allocates [] None"




text \<open>
  Entry points: one per plugin runner, one for the class that is no runner, one whose
  import fails, one whose import fails with an exception that has no text, one whose module
  exits the interpreter on import.
\<close>

definition couchdb_entry :: entry_point where
  "couchdb_entry = \<lparr>ep_name = ''couchdb'', ep_load = Inr (Class CouchDBRunner)\<rparr>"

definition http_json_entry :: entry_point where
  "http_json_entry = \<lparr>ep_name = ''http_json'', ep_load = Inr (Class HttpJsonRunner)\<rparr>"

definition other_entry :: entry_point where
  "other_entry = \<lparr>ep_name = ''other'', ep_load = Inr (Class NotARunner)\<rparr>"

definition broken_entry :: entry_point where
  "broken_entry =
     \<lparr>ep_name = ''broken'', ep_load = Inl (Raise ImportError ''No module named broken'')\<rparr>"



text \<open>
  Environments: packages whose metadata is read without error, with a standard output that
  takes every line; the same with a closed standard output; and metadata with a malformed
  line after the given entries.
\<close>

definition installed :: "entry_point list \<Rightarrow> environment" where
  "installed eps =
     \<lparr>entry_points = eps, iteration_error = None, stdout_error = (\<lambda>line. None)\<rparr>"



definition a_factory :: factory where
  "a_factory = \<lparr>fac_id = 0\<rparr>"

text \<open>
  A run on the store: a factory is constructed, a runner is registered, and a second factory
  is constructed with a plugin installed.
\<close>

definition after_first_factory :: objects where
  "after_first_factory = run_of [New_factory (installed [])] initial_objects"

definition after_registration :: objects where
  "after_registration =
     run_of [New_factory (installed []),
             Register_runner ''couchdb'' (Class CouchDBRunner)] initial_objects"

definition after_second_factory :: objects where
  "after_second_factory =
     run_of [New_factory (installed []),
             Register_runner ''couchdb'' (Class CouchDBRunner),
             New_factory (installed [http_json_entry])] initial_objects"

section \<open>Auxiliary facts\<close>

lemma issubclass_True_not_None: "issubclass_QueryRunner obj = Inr True \<Longrightarrow> \<not> is_None obj"
  by (cases obj) auto

lemma issubclass_error_is_Exception:
  "issubclass_QueryRunner obj = Inl e \<Longrightarrow> isinstance_Exception e"
  by (cases obj) (auto simp: isinstance_Exception_def)

lemma get_dao_registered:
  "runners st n = Some obj \<Longrightarrow> issubclass_QueryRunner obj = Inr True \<Longrightarrow>
     get_dao self n st = call obj st"
  by (simp add: get_dao_def dict_get_def issubclass_True_not_None del: call.simps)

lemma register_runner_ok:
  "issubclass_QueryRunner R = Inr True \<Longrightarrow>
     register_runner n R st = (Inr (), st\<lparr>runners := (runners st)(n \<mapsto> R)\<rparr>)"
  by (simp add: register_runner_def)

lemma register_runner_success:
  "register_runner n R st = (Inr u, st') \<Longrightarrow>
     issubclass_QueryRunner R = Inr True \<and> st' = st\<lparr>runners := (runners st)(n \<mapsto> R)\<rparr>"
  by (auto simp: register_runner_def split: sum.splits if_splits)

lemma register_runner_registry:
  "runners (snd (register_runner n R st)) =
     (if issubclass_QueryRunner R = Inr True then (runners st)(n \<mapsto> R) else runners st)"
  by (auto simp: register_runner_def split: sum.splits)

lemma contract_issubclass: "satisfies_Runner_contract R \<Longrightarrow> issubclass_QueryRunner R = Inr True"
  by (cases R) auto

subsection \<open>Constructors\<close>

lemma init_registers_inherits:
  "inherits_QueryRunner c \<Longrightarrow>
     init_registers c names st =
       (Inr (), st\<lparr>runners := foldl (\<lambda>r n. r(n \<mapsto> Class c)) (runners st) names\<rparr>)"
proof (induction names arbitrary: st)
  case Nil
  show ?case by simp
next
  case (Cons name rest)
  from Cons.prems have "register_runner name (Class c) st =
      (Inr (), st\<lparr>runners := (runners st)(name \<mapsto> Class c)\<rparr>)"
    by (simp add: register_runner_ok)
  with Cons.IH [OF Cons.prems, of "st\<lparr>runners := (runners st)(name \<mapsto> Class c)\<rparr>"]
  show ?case by simp
qed


lemma init_registers_invariant:
  "\<forall>n obj. runners st n = Some obj \<longrightarrow> issubclass_QueryRunner obj = Inr True \<Longrightarrow>
     runners (snd (init_registers c names st)) n = Some obj \<Longrightarrow>
     issubclass_QueryRunner obj = Inr True"
proof (induction names arbitrary: st)
  case Nil
  then show ?case by simp
next
  case (Cons name rest)
  show ?case
  proof (cases "register_runner name (Class c) st")
    case (Pair r st')
    have st': "st' = snd (register_runner name (Class c) st)" using Pair by simp
    have inv': "\<forall>n obj. runners st' n = Some obj \<longrightarrow> issubclass_QueryRunner obj = Inr True"
      using Cons.prems(1) unfolding st' register_runner_registry by (auto split: if_splits)
    show ?thesis
    proof (cases r)
      case (Inl e)
      with Pair Cons.prems(2) have "runners st' n = Some obj" by simp
      with inv' show ?thesis by blast
    next
      case (Inr u)
      with Pair Cons.prems(2) have "runners (snd (init_registers c rest st')) n = Some obj"
        by simp
      with inv' show ?thesis by (rule Cons.IH)
    qed
  qed
qed

lemma instantiate_invariant:
  assumes inv: "\<forall>n obj. runners st n = Some obj \<longrightarrow> issubclass_QueryRunner obj = Inr True"
    and reg: "runners (snd (instantiate c st)) n = Some obj"
  shows "issubclass_QueryRunner obj = Inr True"
proof (cases "construction_of c")
  case Allocates
  let ?st = "st\<lparr>next_id := Suc (next_id st)\<rparr>"
  from inv have inv': "\<forall>n obj. runners ?st n = Some obj \<longrightarrow> issubclass_QueryRunner obj = Inr True"
    by simp
  from reg Allocates have "runners (snd (init_registers c (registers_of c) ?st)) n = Some obj"
    by (auto simp: instantiate_def split: prod.splits sum.splits)
  with inv' show ?thesis by (rule init_registers_invariant)
next
  case (Fails e)
  with reg inv show ?thesis by (simp add: instantiate_def)
next
  case (Existing k)
  from reg Existing have "runners (snd (init_registers c (registers_of c) st)) n = Some obj"
    by (auto simp: instantiate_def split: prod.splits sum.splits)
  with inv show ?thesis by (rule init_registers_invariant)
qed

lemma call_invariant:
  "\<forall>n obj. runners st n = Some obj \<longrightarrow> issubclass_QueryRunner obj = Inr True \<Longrightarrow>
     runners (snd (call R st)) n = Some obj \<Longrightarrow> issubclass_QueryRunner obj = Inr True"
  by (cases R) (auto intro: instantiate_invariant)

lemma get_dao_invariant:
  "\<forall>n obj. runners st n = Some obj \<longrightarrow> issubclass_QueryRunner obj = Inr True \<Longrightarrow>
     runners (snd (get_dao self m st)) n = Some obj \<Longrightarrow> issubclass_QueryRunner obj = Inr True"
  by (cases "is_None (dict_get (runners st) m)")
    (auto simp: get_dao_def simp del: call.simps intro: call_invariant)

lemma instantiate_Allocates:
  "construction_of c = Allocates \<Longrightarrow> inherits_QueryRunner c \<Longrightarrow>
     instantiate c st =
       (Inr \<lparr>inst_id = next_id st, inst_class = c\<rparr>,
        st\<lparr>next_id := Suc (next_id st),
           runners := foldl (\<lambda>r n. r(n \<mapsto> Class c)) (runners st) (registers_of c)\<rparr>)"
  by (simp add: instantiate_def init_registers_inherits)

lemma instantiate_Existing:
  "construction_of c = Existing k \<Longrightarrow> inherits_QueryRunner c \<Longrightarrow>
     instantiate c st =
       (Inr \<lparr>inst_id = k, inst_class = c\<rparr>,
        st\<lparr>runners := foldl (\<lambda>r n. r(n \<mapsto> Class c)) (runners st) (registers_of c)\<rparr>)"
  by (simp add: instantiate_def init_registers_inherits)

lemma instantiate_plain:
  "plain_class c \<Longrightarrow>
     instantiate c st =
       (Inr \<lparr>inst_id = next_id st, inst_class = c\<rparr>, st\<lparr>next_id := Suc (next_id st)\<rparr>)"
  by (simp add: instantiate_def plain_class_def)

lemma contract_call:
  assumes "satisfies_Runner_contract R"
  shows "\<exists>inst st'. call R st = (Inr inst, st') \<and> Class (inst_class inst) = R \<and>
           has_get_number (inst_class inst)"
proof (cases R)
  case (Class c)
  with assms have inh: "inherits_QueryRunner c" and con: "constructible c"
    and has: "has_get_number c" by simp_all
  show ?thesis
  proof (cases "construction_of c")
    case Allocates
    with inh has Class show ?thesis by (simp add: instantiate_Allocates)
  next
    case (Fails e)
    with con show ?thesis by simp
  next
    case (Existing k)
    with inh has Class show ?thesis by (simp add: instantiate_Existing)
  qed
next
  case (Value v)
  with assms show ?thesis by simp
qed

subsection \<open>The plugin loader\<close>

lemma load_runner_cases:
  "load_runner entry st =
     (case loaded_class entry of
        Some obj \<Rightarrow> (Inr (), st\<lparr>runners := (runners st)(ep_name entry \<mapsto> obj)\<rparr>)
      | None \<Rightarrow> (case try_failure entry of Some e \<Rightarrow> (Inl e, st) | None \<Rightarrow> (Inr (), st)))"
  by (auto simp: load_runner_def loaded_class_def try_failure_def split: sum.splits)

lemma loaded_class_no_failure: "loaded_class entry = Some obj \<Longrightarrow> try_failure entry = None"
  by (auto simp: loaded_class_def try_failure_def split: sum.splits if_splits)

lemma print_error_cases:
  "print_error env entry e st =
     (case error_line entry e of
        Inl e' \<Rightarrow> (Inl e', st)
      | Inr line \<Rightarrow>
          (case stdout_error env line of
             Some e' \<Rightarrow> (Inl e', st)
           | None \<Rightarrow> (Inr (), st\<lparr>stdout := stdout st @ [line]\<rparr>)))"
  by (simp add: print_error_def)

lemma runners_print_error [simp]: "runners (snd (print_error env entry e st)) = runners st"
  by (simp add: print_error_def split: sum.splits option.splits)


lemma loaded_class_issubclass:
  "loaded_class entry = Some R \<Longrightarrow> issubclass_QueryRunner R = Inr True"
  by (auto simp: loaded_class_def split: sum.splits if_splits)

lemma last_loaded_issubclass:
  "last_loaded eps n = Some R \<Longrightarrow> issubclass_QueryRunner R = Inr True"
  by (induction eps) (auto simp: loaded_class_issubclass split: option.splits if_splits)




lemma for_entry_points_registry:
  "fst (for_entry_points self env eps st) = Inr u \<Longrightarrow>
     runners (snd (for_entry_points self env eps st)) n =
       (case last_loaded eps n of Some obj \<Rightarrow> Some obj | None \<Rightarrow> runners st n)"
proof (induction eps arbitrary: st)
  case Nil
  show ?case by (simp split: option.splits)
next
  case (Cons entry rest)
  show ?case
  proof (cases "loaded_class entry")
    case (Some obj)
    let ?st = "st\<lparr>runners := (runners st)(ep_name entry \<mapsto> obj)\<rparr>"
    from Some Cons.prems have "fst (for_entry_points self env rest ?st) = Inr u"
      by (simp add: load_runner_cases)
    from Cons.IH [OF this] Some show ?thesis
      by (auto simp: load_runner_cases split: option.splits)
  next
    case None
    show ?thesis
    proof (cases "try_failure entry")
      case None
      with \<open>loaded_class entry = None\<close> Cons.prems
      have "fst (for_entry_points self env rest st) = Inr u" by (simp add: load_runner_cases)
      from Cons.IH [OF this] None \<open>loaded_class entry = None\<close> show ?thesis
        by (auto simp: load_runner_cases split: option.splits)
    next
      case (Some e)
      obtain r st' where p: "print_error env entry e st = (r, st')"
        by (cases "print_error env entry e st")
      then have rs: "runners st' = runners st"
        using runners_print_error [of env entry e st] by simp
      from Some \<open>loaded_class entry = None\<close> p Cons.prems
      have ok: "fst (for_entry_points self env rest st') = Inr u"
        and eq: "for_entry_points self env (entry # rest) st = for_entry_points self env rest st'"
        by (auto simp: load_runner_cases split: if_splits sum.splits)
      from Cons.IH [OF ok] eq rs \<open>loaded_class entry = None\<close> show ?thesis
        by (auto split: option.splits)
    qed
  qed
qed

lemma for_entry_points_invariant:
  "\<forall>n obj. runners st n = Some obj \<longrightarrow> issubclass_QueryRunner obj = Inr True \<Longrightarrow>
     runners (snd (for_entry_points self env eps st)) n = Some obj \<Longrightarrow>
     issubclass_QueryRunner obj = Inr True"
proof (induction eps arbitrary: st)
  case Nil
  then show ?case by (auto split: option.splits)
next
  case (Cons entry rest)
  show ?case
  proof (cases "loaded_class entry")
    case (Some R)
    let ?st = "st\<lparr>runners := (runners st)(ep_name entry \<mapsto> R)\<rparr>"
    from Some have "issubclass_QueryRunner R = Inr True" by (rule loaded_class_issubclass)
    with Cons.prems(1)
    have inv: "\<forall>n obj. runners ?st n = Some obj \<longrightarrow> issubclass_QueryRunner obj = Inr True"
      by simp
    from Some Cons.prems(2)
    have "runners (snd (for_entry_points self env rest ?st)) n = Some obj"
      by (simp add: load_runner_cases)
    with inv show ?thesis by (rule Cons.IH)
  next
    case None
    show ?thesis
    proof (cases "try_failure entry")
      case None
      with \<open>loaded_class entry = None\<close> Cons.prems(2)
      have "runners (snd (for_entry_points self env rest st)) n = Some obj"
        by (simp add: load_runner_cases)
      with Cons.prems(1) show ?thesis by (rule Cons.IH)
    next
      case (Some e)
      obtain r st' where p: "print_error env entry e st = (r, st')"
        by (cases "print_error env entry e st")
      then have rs: "runners st' = runners st"
        using runners_print_error [of env entry e st] by simp
      with Cons.prems(1)
      have inv: "\<forall>n obj. runners st' n = Some obj \<longrightarrow> issubclass_QueryRunner obj = Inr True"
        by simp
      show ?thesis
      proof (cases "isinstance_Exception e \<and> r = Inr ()")
        case True
        with Some \<open>loaded_class entry = None\<close> p Cons.prems(2)
        have "runners (snd (for_entry_points self env rest st')) n = Some obj"
          by (simp add: load_runner_cases)
        with inv show ?thesis by (rule Cons.IH)
      next
        case False
        with Some \<open>loaded_class entry = None\<close> p Cons.prems(2) rs
        have "runners st n = Some obj"
          by (auto simp: load_runner_cases split: if_splits sum.splits)
        with Cons.prems(1) show ?thesis by blast
      qed
    qed
  qed
qed

lemma AbstractFactory_init_success:
  "AbstractFactory_init env st = (Inr self, st') \<Longrightarrow>
     self = \<lparr>fac_id = next_id st\<rparr> \<and>
     fst (load_external_runners self env (st\<lparr>next_id := Suc (next_id st)\<rparr>)) = Inr () \<and>
     st' = snd (load_external_runners self env (st\<lparr>next_id := Suc (next_id st)\<rparr>))"
  by (auto simp: AbstractFactory_init_def Let_def split: prod.splits sum.splits)

lemma AbstractFactory_init_state:
  "snd (AbstractFactory_init env st) =
     snd (load_external_runners \<lparr>fac_id = next_id st\<rparr> env (st\<lparr>next_id := Suc (next_id st)\<rparr>))"
  by (auto simp: AbstractFactory_init_def Let_def split: prod.splits sum.splits)

subsection \<open>Sequences of operations\<close>

lemma apply_operation_inherits:
  assumes inv: "\<forall>n obj. runners st n = Some obj \<longrightarrow> issubclass_QueryRunner obj = Inr True"
    and reg: "runners (apply_operation op st) n = Some obj"
  shows "issubclass_QueryRunner obj = Inr True"
proof (cases op)
  case (New_factory env)
  let ?st = "st\<lparr>next_id := Suc (next_id st)\<rparr>"
  from inv have "\<forall>n obj. runners ?st n = Some obj \<longrightarrow> issubclass_QueryRunner obj = Inr True"
    by simp
  moreover from reg New_factory
  have "runners (snd (for_entry_points \<lparr>fac_id = next_id st\<rparr> env (entry_points env) ?st)) n =
      Some obj"
    by (simp add: AbstractFactory_init_state load_external_runners_def)
  ultimately show ?thesis by (rule for_entry_points_invariant)
next
  case (Register_runner name R)
  with reg inv show ?thesis
    by (auto simp: register_runner_registry split: if_splits)
next
  case (Get_dao self name)
  with reg have "runners (snd (get_dao self name st)) n = Some obj" by simp
  with inv show ?thesis by (rule get_dao_invariant)
qed

lemma run_inherits:
  "\<forall>n obj. runners st n = Some obj \<longrightarrow> issubclass_QueryRunner obj = Inr True \<Longrightarrow>
     runners (run ops st) n = Some obj \<Longrightarrow> issubclass_QueryRunner obj = Inr True"
proof (induction ops arbitrary: st)
  case Nil
  then show ?case by simp
next
  case (Cons op ops)
  have "\<forall>n obj. runners (apply_operation op st) n = Some obj \<longrightarrow>
          issubclass_QueryRunner obj = Inr True"
    using Cons.prems(1) apply_operation_inherits by blast
  moreover from Cons.prems(2) have "runners (run ops (apply_operation op st)) n = Some obj"
    by simp
  ultimately show ?case by (rule Cons.IH)
qed

lemma initial_state_inherits:
  "runners initial_state n = Some obj \<Longrightarrow> issubclass_QueryRunner obj = Inr True"
  by (auto simp: initial_state_def AbstractFactory_runners_def split: if_splits)

subsection \<open>Attribute lookup\<close>

lemma own_runners_on_shared [simp]: "own_runners (snd (on_shared step os)) = own_runners os"
  by (simp add: on_shared_def split: prod.splits)

lemma shared_on_shared [simp]: "shared (snd (on_shared step os)) = snd (step (shared os))"
  by (simp add: on_shared_def split: prod.splits)

lemma fst_on_shared [simp]: "fst (on_shared step os) = fst (step (shared os))"
  by (simp add: on_shared_def split: prod.splits)

lemma on_shared_eq:
  "step (shared os) = (r, st') \<Longrightarrow> on_shared step os = (r, os\<lparr>shared := st'\<rparr>)"
  by (simp add: on_shared_def)

lemma self_runners_shared:
  "own_runners os (fac_id self) = None \<Longrightarrow> self_runners self os = runners (shared os)"
  by (simp add: self_runners_def)

lemma get_dao_of_shared:
  "own_runners os (fac_id self) = None \<Longrightarrow>
     get_dao_of self n os = on_shared (get_dao self n) os"
  by (simp add: get_dao_of_def get_dao_def self_runners_def on_shared_def Let_def del: call.simps)

lemma load_runner_of_shared:
  "own_runners os (fac_id self) = None \<Longrightarrow>
     load_runner_of self entry os = on_shared (load_runner entry) os"
  by (simp add: load_runner_of_def load_runner_def set_self_runner_def on_shared_def
      split: sum.splits)

lemma for_entry_points_of_shared:
  "own_runners os (fac_id self) = None \<Longrightarrow>
     for_entry_points_of self env eps os = on_shared (for_entry_points self env eps) os"
proof (induction eps arbitrary: os)
  case Nil
  show ?case by (simp add: on_shared_def split: option.splits)
next
  case (Cons entry rest)
  obtain r st' where l: "load_runner entry (shared os) = (r, st')"
    by (cases "load_runner entry (shared os)")
  then have lo: "load_runner_of self entry os = (r, os\<lparr>shared := st'\<rparr>)"
    using Cons.prems by (simp add: load_runner_of_shared on_shared_eq)
  have own: "own_runners (os\<lparr>shared := st'\<rparr>) (fac_id self) = None" using Cons.prems by simp
  show ?case
  proof (cases r)
    case (Inr u)
    with l lo Cons.IH [OF own] show ?thesis by (simp add: on_shared_def)
  next
    case (Inl e)
    obtain r' st'' where p: "print_error env entry e st' = (r', st'')"
      by (cases "print_error env entry e st'")
    then have po: "on_shared (print_error env entry e) (os\<lparr>shared := st'\<rparr>) =
        (r', os\<lparr>shared := st''\<rparr>)"
      by (simp add: on_shared_def)
    have own': "own_runners (os\<lparr>shared := st''\<rparr>) (fac_id self) = None" using Cons.prems by simp
    from Inl l lo p po Cons.IH [OF own'] show ?thesis
      by (cases r') (simp_all add: on_shared_def)
  qed
qed

lemma AbstractFactory_init_of_shared:
  "own_runners os (next_id (shared os)) = None \<Longrightarrow>
     AbstractFactory_init_of env os = on_shared (AbstractFactory_init env) os"
proof -
  assume own: "own_runners os (next_id (shared os)) = None"
  let ?self = "\<lparr>fac_id = next_id (shared os)\<rparr>"
  let ?os1 = "os\<lparr>shared := (shared os)\<lparr>next_id := Suc (next_id (shared os))\<rparr>\<rparr>"
  from own have "own_runners ?os1 (fac_id ?self) = None" by simp
  then have "for_entry_points_of ?self env (entry_points env) ?os1 =
      on_shared (for_entry_points ?self env (entry_points env)) ?os1"
    by (rule for_entry_points_of_shared)
  then show ?thesis
    by (simp add: AbstractFactory_init_of_def AbstractFactory_init_def Let_def
        load_external_runners_of_def load_external_runners_def on_shared_def
        split: prod.splits sum.splits)
qed

lemma apply_operation_of_shared:
  "own_runners os = Map.empty \<Longrightarrow>
     apply_operation_of op os = os\<lparr>shared := apply_operation op (shared os)\<rparr>"
proof (cases op)
  case (New_factory env)
  assume "own_runners os = Map.empty"
  then have "own_runners os (next_id (shared os)) = None" by simp
  with New_factory show ?thesis
    by (simp add: AbstractFactory_init_of_shared on_shared_def split: prod.splits)
next
  case (Register_runner name R)
  then show ?thesis by (simp add: register_runner_of_def on_shared_def split: prod.splits)
next
  case (Get_dao self name)
  assume "own_runners os = Map.empty"
  then have "own_runners os (fac_id self) = None" by simp
  with Get_dao show ?thesis
    by (simp add: get_dao_of_shared on_shared_def split: prod.splits)
qed

lemma run_of_shared:
  "own_runners os = Map.empty \<Longrightarrow> run_of ops os = os\<lparr>shared := run ops (shared os)\<rparr>"
proof (induction ops arbitrary: os)
  case Nil
  show ?case by simp
next
  case (Cons op ops)
  have eq: "apply_operation_of op os = os\<lparr>shared := apply_operation op (shared os)\<rparr>"
    using Cons.prems by (rule apply_operation_of_shared)
  have "own_runners (os\<lparr>shared := apply_operation op (shared os)\<rparr>) = Map.empty"
    using Cons.prems by simp
  from Cons.IH [OF this] eq show ?case by simp
qed

lemma run_of_initial:
  "run_of ops initial_objects = \<lparr>shared = run ops initial_state, own_runners = Map.empty\<rparr>"
  using run_of_shared [of initial_objects ops] by (simp add: initial_objects_def)

section \<open>Lookup of an unknown name\<close>

text \<open>
  Claim C1. For every name that is not a key of the registry, \<^verbatim>\<open>get_dao\<close> raises
  \<^verbatim>\<open>ValueError\<close> with the message "Unknown query runner: " followed by the name, and
  leaves the state as it was: it returns no value and no default runner. This exception is
  the error kind that the specification calls UnknownBackend. The hard-wired factory does the
  same for every name other than its three, with the message "Invalid query runner name: ".
\<close>

theorem get_dao_unknown_runner:
  "(runners st runner_name = None \<longrightarrow>
      get_dao self runner_name st =
        (Inl (Raise ValueError (''Unknown query runner: '' @ runner_name)), st)) \<and>
   (name \<notin> {''mongodb'', ''mysql'', ''bigquery''} \<longrightarrow>
      get_query_runner name =
        Inl (Raise ValueError (''Invalid query runner name: '' @ name @ ''.'')))"
  by (simp add: get_dao_def dict_get_def get_query_runner_def)

theorem get_dao_unknown_runner_witness:
  "runners initial_state ''nonexistent'' = None \<and>
   get_dao a_factory ''nonexistent'' initial_state =
     (Inl (Raise ValueError ''Unknown query runner: nonexistent''), initial_state) \<and>
   ''couchdb'' \<notin> {''mongodb'', ''mysql'', ''bigquery''} \<and>
   get_query_runner ''couchdb'' = Inl (Raise ValueError ''Invalid query runner name: couchdb.'')"
  using get_dao_unknown_runner [of initial_state "''nonexistent''" a_factory "''couchdb''"]
  by (simp add: initial_state_def AbstractFactory_runners_def)

section \<open>The built-in runners\<close>

text \<open>
  Claim C6. On the default registry, \<^verbatim>\<open>get_dao("bigquery")\<close> returns a new instance of
  \<^verbatim>\<open>BigQueryRunner\<close>, and its \<^verbatim>\<open>get_number\<close> returns 3 for every configuration. The
  hard-wired factory gives the same number.
\<close>

theorem bigquery_get_number:
  "runners st = AbstractFactory_runners \<Longrightarrow>
     get_dao self ''bigquery'' st =
       (Inr \<lparr>inst_id = next_id st, inst_class = BigQueryRunner\<rparr>,
        st\<lparr>next_id := Suc (next_id st)\<rparr>) \<and>
     get_number \<lparr>inst_id = next_id st, inst_class = BigQueryRunner\<rparr> configuration =
       (Inr (PyInt 3), configuration) \<and>
     get_query_runner ''bigquery'' = Inr BigQueryQueryRunner \<and>
     query_runner_get_number BigQueryQueryRunner configuration = (PyInt 3, configuration)"
  by (simp add: get_dao_def dict_get_def AbstractFactory_runners_def get_number_def
      get_query_runner_def instantiate_def)

theorem bigquery_get_number_witness:
  "runners initial_state = AbstractFactory_runners \<and>
   get_dao a_factory ''bigquery'' initial_state =
     (Inr \<lparr>inst_id = 0, inst_class = BigQueryRunner\<rparr>,
      \<lparr>runners = AbstractFactory_runners, stdout = [], next_id = Suc 0\<rparr>) \<and>
   get_number \<lparr>inst_id = 0, inst_class = BigQueryRunner\<rparr> example_configuration =
     (Inr (PyInt 3), example_configuration)"
  using bigquery_get_number [of initial_state a_factory example_configuration]
  by (simp add: initial_state_def)

text \<open>
  Claim C10. On the default registry, the runner of "mongodb" returns 1 and the runner of
  "mysql" returns 2 for every configuration, and the configuration is the same after the
  call as before.
\<close>

theorem mongodb_mysql_get_number:
  "runners st = AbstractFactory_runners \<Longrightarrow>
     get_dao self ''mongodb'' st =
       (Inr \<lparr>inst_id = next_id st, inst_class = MongoDBRunner\<rparr>,
        st\<lparr>next_id := Suc (next_id st)\<rparr>) \<and>
     get_number \<lparr>inst_id = next_id st, inst_class = MongoDBRunner\<rparr> configuration =
       (Inr (PyInt 1), configuration) \<and>
     get_dao self ''mysql'' st =
       (Inr \<lparr>inst_id = next_id st, inst_class = MySQLRunner\<rparr>,
        st\<lparr>next_id := Suc (next_id st)\<rparr>) \<and>
     get_number \<lparr>inst_id = next_id st, inst_class = MySQLRunner\<rparr> configuration =
       (Inr (PyInt 2), configuration) \<and>
     get_query_runner ''mongodb'' = Inr MongoDBQueryRunner \<and>
     query_runner_get_number MongoDBQueryRunner configuration = (PyInt 1, configuration) \<and>
     get_query_runner ''mysql'' = Inr MySQLQueryRunner \<and>
     query_runner_get_number MySQLQueryRunner configuration = (PyInt 2, configuration)"
  by (simp add: get_dao_def dict_get_def AbstractFactory_runners_def get_number_def
      get_query_runner_def instantiate_def)

theorem mongodb_mysql_get_number_witness:
  "runners initial_state = AbstractFactory_runners \<and>
   fst (get_dao a_factory ''mongodb'' initial_state) =
     Inr \<lparr>inst_id = 0, inst_class = MongoDBRunner\<rparr> \<and>
   get_number \<lparr>inst_id = 0, inst_class = MongoDBRunner\<rparr> example_configuration =
     (Inr (PyInt 1), example_configuration) \<and>
   fst (get_dao a_factory ''mysql'' initial_state) =
     Inr \<lparr>inst_id = 0, inst_class = MySQLRunner\<rparr> \<and>
   get_number \<lparr>inst_id = 0, inst_class = MySQLRunner\<rparr> example_configuration =
     (Inr (PyInt 2), example_configuration)"
  using mongodb_mysql_get_number [of initial_state a_factory example_configuration]
  by (simp add: initial_state_def)

section \<open>Registration\<close>

text \<open>
  Claim C4. Registration is last-write-wins. For every name and any two classes that
  satisfy the Runner contract, registering the first and then the second under the name
  succeeds both times and leaves the name mapped to the second; \<^verbatim>\<open>get_dao\<close> then returns
  an instance of the second class.
\<close>

theorem register_runner_last_write_wins:
  assumes "satisfies_Runner_contract R1" and "satisfies_Runner_contract R2"
  shows "\<exists>st1 st2 inst st3.
           register_runner n R1 st = (Inr (), st1) \<and>
           register_runner n R2 st1 = (Inr (), st2) \<and>
           runners st2 n = Some R2 \<and>
           get_dao self n st2 = (Inr inst, st3) \<and>
           Class (inst_class inst) = R2"
proof -
  let ?st1 = "st\<lparr>runners := (runners st)(n \<mapsto> R1)\<rparr>"
  let ?st2 = "?st1\<lparr>runners := (runners ?st1)(n \<mapsto> R2)\<rparr>"
  from assms have s1: "issubclass_QueryRunner R1 = Inr True"
    and s2: "issubclass_QueryRunner R2 = Inr True"
    by (simp_all add: contract_issubclass)
  have r1: "register_runner n R1 st = (Inr (), ?st1)" using s1 by (rule register_runner_ok)
  have r2: "register_runner n R2 ?st1 = (Inr (), ?st2)" using s2 by (rule register_runner_ok)
  have m: "runners ?st2 n = Some R2" by simp
  from m s2 have g: "get_dao self n ?st2 = call R2 ?st2" by (rule get_dao_registered)
  from contract_call [OF assms(2), of ?st2] obtain inst st3
    where "call R2 ?st2 = (Inr inst, st3)" and "Class (inst_class inst) = R2" by blast
  with g r1 r2 m show ?thesis by metis
qed

theorem register_runner_last_write_wins_witness:
  "satisfies_Runner_contract (Class CouchDBRunner) \<and>
   satisfies_Runner_contract (Class HttpJsonRunner) \<and>
   (\<exists>st1 st2 inst st3.
      register_runner ''x'' (Class CouchDBRunner) initial_state = (Inr (), st1) \<and>
      register_runner ''x'' (Class HttpJsonRunner) st1 = (Inr (), st2) \<and>
      runners st2 ''x'' = Some (Class HttpJsonRunner) \<and>
      get_dao a_factory ''x'' st2 = (Inr inst, st3) \<and>
      Class (inst_class inst) = Class HttpJsonRunner)"
proof -
  have c1: "satisfies_Runner_contract (Class CouchDBRunner)" by (simp add: CouchDBRunner_def)
  have c2: "satisfies_Runner_contract (Class HttpJsonRunner)" by (simp add: HttpJsonRunner_def)
  from c1 c2 register_runner_last_write_wins [OF c1 c2, of "''x''" initial_state a_factory]
  show ?thesis by blast
qed

text \<open>
  Claim C5, as amended. \<^verbatim>\<open>register_runner\<close> checks inheritance and nothing
  else. It raises \<^verbatim>\<open>TypeError\<close> and leaves the registry unchanged exactly when
  its argument is not a class that inherits from \<^verbatim>\<open>QueryRunner\<close>; otherwise it succeeds
  and stores the argument under the name. Every argument that satisfies the Runner contract
  is accepted. The class is not called, so a class that inherits from \<^verbatim>\<open>QueryRunner\<close> and
  cannot be instantiated is accepted as well.
\<close>

theorem register_runner_checks_inheritance:
  "(issubclass_QueryRunner R \<noteq> Inr True \<longrightarrow>
      (\<exists>e. register_runner n R st = (Inl e, st) \<and> exc_class_of e = TypeError)) \<and>
   (issubclass_QueryRunner R = Inr True \<longrightarrow>
      register_runner n R st = (Inr (), st\<lparr>runners := (runners st)(n \<mapsto> R)\<rparr>)) \<and>
   (satisfies_Runner_contract R \<longrightarrow> issubclass_QueryRunner R = Inr True)"
  by (cases R) (auto simp: register_runner_def)

theorem register_runner_checks_inheritance_witness:
  "issubclass_QueryRunner (Class NotARunner) \<noteq> Inr True \<and>
   (\<exists>e. register_runner ''other'' (Class NotARunner) initial_state = (Inl e, initial_state) \<and>
      exc_class_of e = TypeError) \<and>
   issubclass_QueryRunner (Value (PyInt 42)) \<noteq> Inr True \<and>
   (\<exists>e. register_runner ''other'' (Value (PyInt 42)) initial_state = (Inl e, initial_state) \<and>
      exc_class_of e = TypeError) \<and>
   satisfies_Runner_contract (Class CouchDBRunner) \<and>
   issubclass_QueryRunner (Class CouchDBRunner) = Inr True \<and>
   register_runner ''couchdb'' (Class CouchDBRunner) initial_state =
     (Inr (), initial_state\<lparr>runners := (runners initial_state)(''couchdb'' \<mapsto> Class CouchDBRunner)\<rparr>)"
proof -
  have a: "issubclass_QueryRunner (Class NotARunner) \<noteq> Inr True" by (simp add: NotARunner_def)
  have b: "issubclass_QueryRunner (Value (PyInt 42)) \<noteq> Inr True" by simp
  have c: "satisfies_Runner_contract (Class CouchDBRunner)" by (simp add: CouchDBRunner_def)
  from a b c
    register_runner_checks_inheritance [of "Class NotARunner" "''other''" initial_state]
    register_runner_checks_inheritance [of "Value (PyInt 42)" "''other''" initial_state]
    register_runner_checks_inheritance [of "Class CouchDBRunner" "''couchdb''" initial_state]
  show ?thesis by blast
qed

text \<open>
  Claim C5 as stated fails for \<^verbatim>\<open>QueryRunner\<close> itself: the abstract class does not satisfy
  the contract, since it cannot be instantiated, and \<^verbatim>\<open>register_runner\<close> accepts it.
\<close>

theorem register_runner_accepts_abstract_class:
  "\<not> satisfies_Runner_contract (Class QueryRunner) \<and>
   fst (register_runner ''abstract'' (Class QueryRunner) initial_state) = Inr () \<and>
   runners (snd (register_runner ''abstract'' (Class QueryRunner) initial_state)) ''abstract'' =
     Some (Class QueryRunner)"
  by (simp add: register_runner_def)

section \<open>The registry invariant\<close>

text \<open>
  Claim C2, as amended. After any sequence of factory constructions (with any plugin
  entry points), \<^verbatim>\<open>register_runner\<close> calls and \<^verbatim>\<open>get_dao\<close> calls from the initial state,
  every entry of the registry is a class for which \<^verbatim>\<open>issubclass(cls, QueryRunner)\<close> holds,
  and \<^verbatim>\<open>get_dao\<close> of a registered name returns exactly what calling that class returns. When
  the class satisfies the Runner contract, the call returns an instance of it with a
  \<^verbatim>\<open>get_number\<close> method.
\<close>

theorem registry_entries_inherit:
  assumes "runners (run ops initial_state) n = Some obj"
  shows "issubclass_QueryRunner obj = Inr True \<and>
         get_dao self n (run ops initial_state) = call obj (run ops initial_state) \<and>
         (satisfies_Runner_contract obj \<longrightarrow>
            (\<exists>inst st'. get_dao self n (run ops initial_state) = (Inr inst, st') \<and>
               Class (inst_class inst) = obj \<and> has_get_number (inst_class inst)))"
proof -
  have init: "\<forall>n obj. runners initial_state n = Some obj \<longrightarrow>
                issubclass_QueryRunner obj = Inr True"
    using initial_state_inherits by blast
  from init assms have sub: "issubclass_QueryRunner obj = Inr True" by (rule run_inherits)
  from assms sub have g: "get_dao self n (run ops initial_state) = call obj (run ops initial_state)"
    by (rule get_dao_registered)
  have "\<exists>inst st'. get_dao self n (run ops initial_state) = (Inr inst, st') \<and>
               Class (inst_class inst) = obj \<and> has_get_number (inst_class inst)"
    if "satisfies_Runner_contract obj"
    using contract_call [OF that, of "run ops initial_state"] g by simp
  with sub g show ?thesis by blast
qed

lemma run_example:
  "run [New_factory (installed [broken_entry, other_entry, couchdb_entry]),
        Register_runner ''http_json'' (Class HttpJsonRunner),
        Get_dao a_factory ''mysql''] initial_state =
     \<lparr>runners = AbstractFactory_runners(''couchdb'' \<mapsto> Class CouchDBRunner,
                  ''http_json'' \<mapsto> Class HttpJsonRunner),
      stdout = [''Error loading runner broken: No module named broken''],
      next_id = Suc (Suc 0)\<rparr>"
  by (simp add: AbstractFactory_init_def Let_def load_external_runners_def load_runner_def
      print_error_def error_line_def isinstance_Exception_def installed_def
      register_runner_def get_dao_def dict_get_def instantiate_def
      initial_state_def AbstractFactory_runners_def
      broken_entry_def other_entry_def couchdb_entry_def
      CouchDBRunner_def HttpJsonRunner_def NotARunner_def)

theorem registry_entries_inherit_witness:
  "runners (run [New_factory (installed [broken_entry, other_entry, couchdb_entry]),
        Register_runner ''http_json'' (Class HttpJsonRunner),
        Get_dao a_factory ''mysql''] initial_state) ''couchdb'' = Some (Class CouchDBRunner) \<and>
   issubclass_QueryRunner (Class CouchDBRunner) = Inr True \<and>
   satisfies_Runner_contract (Class CouchDBRunner) \<and>
   (\<exists>inst st'. get_dao a_factory ''couchdb''
        (run [New_factory (installed [broken_entry, other_entry, couchdb_entry]),
          Register_runner ''http_json'' (Class HttpJsonRunner),
          Get_dao a_factory ''mysql''] initial_state) = (Inr inst, st') \<and>
      Class (inst_class inst) = Class CouchDBRunner \<and> has_get_number (inst_class inst))"
proof -
  let ?ops = "[New_factory (installed [broken_entry, other_entry, couchdb_entry]),
        Register_runner ''http_json'' (Class HttpJsonRunner),
        Get_dao a_factory ''mysql'']"
  have r: "runners (run ?ops initial_state) ''couchdb'' = Some (Class CouchDBRunner)"
    by (simp only: run_example) simp
  have c: "satisfies_Runner_contract (Class CouchDBRunner)" by (simp add: CouchDBRunner_def)
  from r c registry_entries_inherit [OF r, of a_factory] show ?thesis by blast
qed

text \<open>
  Claim C2 as stated fails: \<^verbatim>\<open>QueryRunner\<close> is a subclass of itself, so
  \<^verbatim>\<open>register_runner\<close> stores it, and \<^verbatim>\<open>get_dao\<close> of that name then raises \<^verbatim>\<open>TypeError\<close>
  because the abstract class cannot be instantiated.
\<close>

theorem registered_abstract_class_fails:
  "runners (run [Register_runner ''abstract'' (Class QueryRunner)] initial_state) ''abstract'' =
     Some (Class QueryRunner) \<and>
   fst (get_dao a_factory ''abstract''
     (run [Register_runner ''abstract'' (Class QueryRunner)] initial_state)) =
     Inl abstract_class_error \<and>
   exc_class_of abstract_class_error = TypeError"
  by (simp add: register_runner_def get_dao_def dict_get_def instantiate_def
      abstract_class_error_def)

section \<open>Plugin discovery\<close>


lemma load_example:
  "load_external_runners a_factory (installed [broken_entry, other_entry, couchdb_entry])
       initial_state =
     (Inr (),
      \<lparr>runners = AbstractFactory_runners(''couchdb'' \<mapsto> Class CouchDBRunner),
       stdout = [''Error loading runner broken: No module named broken''],
       next_id = 0\<rparr>)"
  by (simp add: load_external_runners_def load_runner_def print_error_def error_line_def
      isinstance_Exception_def installed_def initial_state_def
      broken_entry_def other_entry_def couchdb_entry_def CouchDBRunner_def NotARunner_def)



section \<open>No instance caching\<close>






section \<open>Lookup and the registry\<close>









section \<open>The registry is shared\<close>

lemma reachable_objects:
  "os = run_of ops initial_objects \<Longrightarrow>
     own_runners os = Map.empty \<and> shared os = run ops initial_state"
  by (simp add: run_of_initial)

lemma shared_inherits:
  assumes "os = run_of ops initial_objects" and "runners (shared os) n = Some obj"
  shows "issubclass_QueryRunner obj = Inr True"
proof -
  have init: "\<forall>n obj. runners initial_state n = Some obj \<longrightarrow>
                issubclass_QueryRunner obj = Inr True"
    using initial_state_inherits by blast
  from assms have "runners (run ops initial_state) n = Some obj" by (simp add: run_of_initial)
  with init show ?thesis by (rule run_inherits)
qed

lemma resolved_on_every_factory:
  assumes own: "own_runners os = Map.empty"
    and reg: "runners (shared os) n = Some R"
    and sub: "issubclass_QueryRunner R = Inr True"
  shows "self_runners g os n = Some R \<and>
         (satisfies_Runner_contract R \<longrightarrow>
            (\<exists>inst os'. get_dao_of g n os = (Inr inst, os') \<and> Class (inst_class inst) = R)) \<and>
         (R = Class c \<and> plain_class c \<longrightarrow>
            get_dao_of g n os =
              (Inr \<lparr>inst_id = next_id (shared os), inst_class = c\<rparr>,
               os\<lparr>shared := (shared os)\<lparr>next_id := Suc (next_id (shared os))\<rparr>\<rparr>))"
proof -
  from own have none: "own_runners os (fac_id g) = None" by simp
  then have sr: "self_runners g os = runners (shared os)" by (rule self_runners_shared)
  from none have lift: "get_dao_of g n os = on_shared (get_dao g n) os"
    by (rule get_dao_of_shared)
  from reg sub have gd: "get_dao g n (shared os) = call R (shared os)"
    by (rule get_dao_registered)
  have c1: "\<exists>inst os'. get_dao_of g n os = (Inr inst, os') \<and> Class (inst_class inst) = R"
    if "satisfies_Runner_contract R"
  proof -
    from contract_call [OF that, of "shared os"] obtain inst st'
      where "call R (shared os) = (Inr inst, st')" and "Class (inst_class inst) = R"
      by blast
    with gd lift show ?thesis by (simp add: on_shared_def)
  qed
  have c2: "get_dao_of g n os =
      (Inr \<lparr>inst_id = next_id (shared os), inst_class = c\<rparr>,
       os\<lparr>shared := (shared os)\<lparr>next_id := Suc (next_id (shared os))\<rparr>\<rparr>)"
    if "R = Class c \<and> plain_class c"
    using that gd lift by (simp add: on_shared_def instantiate_plain)
  from sr reg c1 c2 show ?thesis by simp
qed

text \<open>
  Claim C9. On the store with explicit attribute lookup, after any sequence of factory
  constructions, registrations and lookups, no factory object has a \<^verbatim>\<open>_runners\<close> of its
  own: \<^verbatim>\<open>self._runners\<close> is the dictionary of the class on every factory. So after a
  successful \<^verbatim>\<open>register_runner\<close> of a name, and after the construction of a factory whose
  plugin loading registers a name, the name is a key of \<^verbatim>\<open>self._runners\<close> on every factory,
  also on one constructed before; \<^verbatim>\<open>get_dao\<close> on any factory returns an instance of the
  registered class when the class satisfies the Runner contract, and for a plain class
  exactly a new instance.
\<close>

theorem registry_shared_by_all_factories:
  assumes "os = run_of ops initial_objects"
  shows
    "own_runners os = Map.empty \<and>
     self_runners earlier os = runners (shared os) \<and>
     (register_runner_of n R os = (Inr (), os') \<longrightarrow>
        self_runners earlier os' n = Some R \<and> self_runners later os' n = Some R \<and>
        (satisfies_Runner_contract R \<longrightarrow>
           (\<exists>inst os''. get_dao_of earlier n os' = (Inr inst, os'') \<and>
              Class (inst_class inst) = R)) \<and>
        (R = Class c \<and> plain_class c \<longrightarrow>
           get_dao_of earlier n os' =
             (Inr \<lparr>inst_id = next_id (shared os'), inst_class = c\<rparr>,
              os'\<lparr>shared := (shared os')\<lparr>next_id := Suc (next_id (shared os'))\<rparr>\<rparr>))) \<and>
     (AbstractFactory_init_of env os = (Inr self, os') \<and>
      last_loaded (entry_points env) n = Some R \<longrightarrow>
        self = \<lparr>fac_id = next_id (shared os)\<rparr> \<and>
        self_runners self os' n = Some R \<and> self_runners earlier os' n = Some R \<and>
        (satisfies_Runner_contract R \<longrightarrow>
           (\<exists>inst os''. get_dao_of earlier n os' = (Inr inst, os'') \<and>
              Class (inst_class inst) = R)) \<and>
        (R = Class c \<and> plain_class c \<longrightarrow>
           get_dao_of earlier n os' =
             (Inr \<lparr>inst_id = next_id (shared os'), inst_class = c\<rparr>,
              os'\<lparr>shared := (shared os')\<lparr>next_id := Suc (next_id (shared os'))\<rparr>\<rparr>)))"
proof -
  from assms have own: "own_runners os = Map.empty" by (simp add: run_of_initial)
  then have sr: "self_runners earlier os = runners (shared os)"
    by (simp add: self_runners_def)
  have registered:
    "self_runners earlier os' n = Some R \<and> self_runners later os' n = Some R \<and>
        (satisfies_Runner_contract R \<longrightarrow>
           (\<exists>inst os''. get_dao_of earlier n os' = (Inr inst, os'') \<and>
              Class (inst_class inst) = R)) \<and>
        (R = Class c \<and> plain_class c \<longrightarrow>
           get_dao_of earlier n os' =
             (Inr \<lparr>inst_id = next_id (shared os'), inst_class = c\<rparr>,
              os'\<lparr>shared := (shared os')\<lparr>next_id := Suc (next_id (shared os'))\<rparr>\<rparr>))"
    if reg: "register_runner_of n R os = (Inr (), os')"
  proof -
    obtain r st' where rr: "register_runner n R (shared os) = (r, st')"
      by (cases "register_runner n R (shared os)")
    with reg have r: "r = Inr ()" and os': "os' = os\<lparr>shared := st'\<rparr>"
      by (simp_all add: register_runner_of_def on_shared_def)
    from rr r register_runner_success [of n R "shared os" "()" st']
    have sub: "issubclass_QueryRunner R = Inr True"
      and st': "st' = (shared os)\<lparr>runners := (runners (shared os))(n \<mapsto> R)\<rparr>"
      by simp_all
    from os' own have own': "own_runners os' = Map.empty" by simp
    from os' st' have m: "runners (shared os') n = Some R" by simp
    from resolved_on_every_factory [OF own' m sub, of earlier c]
      resolved_on_every_factory [OF own' m sub, of later c]
    show ?thesis by blast
  qed
  have loaded:
    "self = \<lparr>fac_id = next_id (shared os)\<rparr> \<and>
     self_runners self os' n = Some R \<and> self_runners earlier os' n = Some R \<and>
        (satisfies_Runner_contract R \<longrightarrow>
           (\<exists>inst os''. get_dao_of earlier n os' = (Inr inst, os'') \<and>
              Class (inst_class inst) = R)) \<and>
        (R = Class c \<and> plain_class c \<longrightarrow>
           get_dao_of earlier n os' =
             (Inr \<lparr>inst_id = next_id (shared os'), inst_class = c\<rparr>,
              os'\<lparr>shared := (shared os')\<lparr>next_id := Suc (next_id (shared os'))\<rparr>\<rparr>))"
    if a: "AbstractFactory_init_of env os = (Inr self, os') \<and>
      last_loaded (entry_points env) n = Some R"
  proof -
    from own have "own_runners os (next_id (shared os)) = None" by simp
    then have lift: "AbstractFactory_init_of env os = on_shared (AbstractFactory_init env) os"
      by (rule AbstractFactory_init_of_shared)
    obtain r st' where ii: "AbstractFactory_init env (shared os) = (r, st')"
      by (cases "AbstractFactory_init env (shared os)")
    with a lift have r: "r = Inr self" and os': "os' = os\<lparr>shared := st'\<rparr>"
      by (simp_all add: on_shared_def)
    from ii r have init: "AbstractFactory_init env (shared os) = (Inr self, st')" by simp
    note s = AbstractFactory_init_success [OF init]
    from s have self: "self = \<lparr>fac_id = next_id (shared os)\<rparr>" by blast
    from s have ok: "fst (for_entry_points self env (entry_points env)
        ((shared os)\<lparr>next_id := Suc (next_id (shared os))\<rparr>)) = Inr ()"
      unfolding load_external_runners_def by blast
    from s have st': "st' = snd (for_entry_points self env (entry_points env)
        ((shared os)\<lparr>next_id := Suc (next_id (shared os))\<rparr>))"
      unfolding load_external_runners_def by blast
    from a have ll: "last_loaded (entry_points env) n = Some R" by simp
    then have sub: "issubclass_QueryRunner R = Inr True" by (rule last_loaded_issubclass)
    from ll st' for_entry_points_registry [OF ok, of n]
    have "runners st' n = Some R" by simp
    with os' have m: "runners (shared os') n = Some R" by simp
    from os' own have own': "own_runners os' = Map.empty" by simp
    from self resolved_on_every_factory [OF own' m sub, of self c]
      resolved_on_every_factory [OF own' m sub, of earlier c]
    show ?thesis by blast
  qed
  from own sr registered loaded show ?thesis by blast
qed

lemma after_first_factory_eq:
  "after_first_factory =
     \<lparr>shared = \<lparr>runners = AbstractFactory_runners, stdout = [], next_id = Suc 0\<rparr>,
      own_runners = Map.empty\<rparr>"
  by (simp add: after_first_factory_def run_of_initial AbstractFactory_init_def Let_def
      load_external_runners_def installed_def initial_state_def)

lemma after_registration_eq:
  "after_registration =
     \<lparr>shared = \<lparr>runners = AbstractFactory_runners(''couchdb'' \<mapsto> Class CouchDBRunner),
               stdout = [], next_id = Suc 0\<rparr>,
      own_runners = Map.empty\<rparr>"
  by (simp add: after_registration_def run_of_initial AbstractFactory_init_def Let_def
      load_external_runners_def installed_def initial_state_def register_runner_def
      CouchDBRunner_def)

lemma after_second_factory_eq:
  "after_second_factory =
     \<lparr>shared = \<lparr>runners = AbstractFactory_runners(''couchdb'' \<mapsto> Class CouchDBRunner,
                            ''http_json'' \<mapsto> Class HttpJsonRunner),
               stdout = [], next_id = Suc (Suc 0)\<rparr>,
      own_runners = Map.empty\<rparr>"
  by (simp add: after_second_factory_def run_of_initial AbstractFactory_init_def Let_def
      load_external_runners_def load_runner_def installed_def initial_state_def
      register_runner_def http_json_entry_def CouchDBRunner_def HttpJsonRunner_def)

theorem registry_shared_by_all_factories_witness:
  "fst (AbstractFactory_init_of (installed []) initial_objects) = Inr \<lparr>fac_id = 0\<rparr> \<and>
   snd (AbstractFactory_init_of (installed []) initial_objects) = after_first_factory \<and>
   register_runner_of ''couchdb'' (Class CouchDBRunner) after_first_factory =
     (Inr (), after_registration) \<and>
   plain_class CouchDBRunner \<and>
   self_runners \<lparr>fac_id = 0\<rparr> after_registration ''couchdb'' = Some (Class CouchDBRunner) \<and>
   fst (get_dao_of \<lparr>fac_id = 0\<rparr> ''couchdb'' after_registration) =
     Inr \<lparr>inst_id = Suc 0, inst_class = CouchDBRunner\<rparr> \<and>
   AbstractFactory_init_of (installed [http_json_entry]) after_registration =
     (Inr \<lparr>fac_id = Suc 0\<rparr>, after_second_factory) \<and>
   last_loaded (entry_points (installed [http_json_entry])) ''http_json'' =
     Some (Class HttpJsonRunner) \<and>
   plain_class HttpJsonRunner \<and>
   self_runners \<lparr>fac_id = Suc 0\<rparr> after_second_factory ''http_json'' =
     Some (Class HttpJsonRunner) \<and>
   self_runners \<lparr>fac_id = 0\<rparr> after_second_factory ''http_json'' =
     Some (Class HttpJsonRunner) \<and>
   fst (get_dao_of \<lparr>fac_id = 0\<rparr> ''http_json'' after_second_factory) =
     Inr \<lparr>inst_id = Suc (Suc 0), inst_class = HttpJsonRunner\<rparr>"
proof -
  have i1: "AbstractFactory_init_of (installed []) initial_objects =
      (Inr \<lparr>fac_id = 0\<rparr>, after_first_factory)"
    by (simp add: after_first_factory_eq AbstractFactory_init_of_def Let_def
        load_external_runners_of_def installed_def initial_objects_def initial_state_def)
  have rg: "register_runner_of ''couchdb'' (Class CouchDBRunner) after_first_factory =
      (Inr (), after_registration)"
    by (simp add: after_first_factory_eq after_registration_eq register_runner_of_def
        on_shared_def register_runner_def CouchDBRunner_def)
  have i2: "AbstractFactory_init_of (installed [http_json_entry]) after_registration =
      (Inr \<lparr>fac_id = Suc 0\<rparr>, after_second_factory)"
    by (simp add: after_registration_eq after_second_factory_eq AbstractFactory_init_of_def
        Let_def load_external_runners_of_def load_runner_of_def set_self_runner_def
        installed_def http_json_entry_def HttpJsonRunner_def)
  have ll: "last_loaded (entry_points (installed [http_json_entry])) ''http_json'' =
      Some (Class HttpJsonRunner)"
    by (simp add: installed_def loaded_class_def http_json_entry_def HttpJsonRunner_def)
  have p1: "plain_class CouchDBRunner" and p2: "plain_class HttpJsonRunner"
    by (simp_all add: plain_class_def CouchDBRunner_def HttpJsonRunner_def)
  have n1: "next_id (shared after_registration) = Suc 0"
    and n2: "next_id (shared after_second_factory) = Suc (Suc 0)"
    by (simp_all add: after_registration_eq after_second_factory_eq)
  note t1 = registry_shared_by_all_factories
    [where ops = "[New_factory (installed [])]" and os = after_first_factory
      and n = "''couchdb''" and R = "Class CouchDBRunner" and os' = after_registration
      and earlier = "\<lparr>fac_id = 0\<rparr>" and later = "\<lparr>fac_id = Suc 0\<rparr>" and c = CouchDBRunner,
      OF after_first_factory_def]
  note t2 = registry_shared_by_all_factories
    [where ops = "[New_factory (installed []),
                   Register_runner ''couchdb'' (Class CouchDBRunner)]"
      and os = after_registration and n = "''http_json''" and R = "Class HttpJsonRunner"
      and os' = after_second_factory and env = "installed [http_json_entry]"
      and self = "\<lparr>fac_id = Suc 0\<rparr>"
      and earlier = "\<lparr>fac_id = 0\<rparr>" and c = HttpJsonRunner,
      OF after_registration_def]
  from t1 rg p1 have a1:
    "self_runners \<lparr>fac_id = 0\<rparr> after_registration ''couchdb'' = Some (Class CouchDBRunner)"
    by blast
  from t1 rg p1 have a2: "get_dao_of \<lparr>fac_id = 0\<rparr> ''couchdb'' after_registration =
      (Inr \<lparr>inst_id = next_id (shared after_registration), inst_class = CouchDBRunner\<rparr>,
       after_registration\<lparr>shared := (shared after_registration)
         \<lparr>next_id := Suc (next_id (shared after_registration))\<rparr>\<rparr>)"
    by blast
  from t2 i2 ll p2 have b1:
    "self_runners \<lparr>fac_id = Suc 0\<rparr> after_second_factory ''http_json'' =
       Some (Class HttpJsonRunner)"
    by blast
  from t2 i2 ll p2 have b2:
    "self_runners \<lparr>fac_id = 0\<rparr> after_second_factory ''http_json'' =
       Some (Class HttpJsonRunner)"
    by blast
  from t2 i2 ll p2 have b3: "get_dao_of \<lparr>fac_id = 0\<rparr> ''http_json'' after_second_factory =
      (Inr \<lparr>inst_id = next_id (shared after_second_factory), inst_class = HttpJsonRunner\<rparr>,
       after_second_factory\<lparr>shared := (shared after_second_factory)
         \<lparr>next_id := Suc (next_id (shared after_second_factory))\<rparr>\<rparr>)"
    by blast
  from i1 rg i2 ll p1 p2 a1 a2 [unfolded n1] b1 b2 b3 [unfolded n2] show ?thesis by simp
qed

text \<open>
  The store can hold a registry per object: an object with a \<^verbatim>\<open>_runners\<close> of its own would
  not see what is registered on the class. No operation of the program creates such an
  object.
\<close>

lemma own_dictionary_is_not_shared:
  "get_dao_of \<lparr>fac_id = 0\<rparr> ''couchdb''
       (after_registration\<lparr>own_runners := [0 \<mapsto> AbstractFactory_runners]\<rparr>) =
     (Inl (Raise ValueError ''Unknown query runner: couchdb''),
      after_registration\<lparr>own_runners := [0 \<mapsto> AbstractFactory_runners]\<rparr>)"
  by (simp add: get_dao_of_def self_runners_def dict_get_def AbstractFactory_runners_def)

end
